theory Spec2Isabelle
  imports Main "HOL-Library.Sublist"
begin

section \<open>Python strings\<close>

text \<open>
  A Python \<open>str\<close> is modelled as a \<^typ>\<open>string\<close>: one \<^typ>\<open>char\<close> per code point, for
  the code points below 256. \<open>len\<close> is \<^const>\<open>length\<close>, \<open>s[:n]\<close> is \<^const>\<open>take\<close>,
  \<open>a in b\<close> is \<^const>\<open>sublist\<close>, \<open>startswith\<close> is \<^const>\<open>prefix\<close> and \<open>endswith\<close> is
  \<^const>\<open>suffix\<close>.
\<close>

definition isspace :: "char \<Rightarrow> bool" where
  \<comment> \<open>\<open>str.isspace\<close> on one code point; also what \<open>\s\<close> matches in a \<open>str\<close> pattern.\<close>
  "isspace c = (let n = (of_char c :: nat) in
     (9 \<le> n \<and> n \<le> 13) \<or> (28 \<le> n \<and> n \<le> 32) \<or> n = 133 \<or> n = 160)"

definition is_linebreak :: "char \<Rightarrow> bool" where
  \<comment> \<open>the line boundaries of \<open>str.splitlines\<close> (a CR LF pair is handled by the caller).\<close>
  "is_linebreak c = (let n = (of_char c :: nat) in
     (10 \<le> n \<and> n \<le> 13) \<or> (28 \<le> n \<and> n \<le> 30) \<or> n = 133)"

definition lower_char :: "char \<Rightarrow> char" where
  \<comment> \<open>\<open>A\<close>..\<open>Z\<close> and the Latin-1 capitals move up by 32, that is, bit 5 is set.\<close>
  "lower_char c = (let n = (of_char c :: nat) in
     if (65 \<le> n \<and> n \<le> 90) \<or> (192 \<le> n \<and> n \<le> 222 \<and> n \<noteq> 215)
     then (case c of Char b0 b1 b2 b3 b4 b5 b6 b7 \<Rightarrow> Char b0 b1 b2 b3 b4 True b6 b7)
     else c)"

definition lower :: "string \<Rightarrow> string" where
  "lower s = map lower_char s"

definition strip :: "string \<Rightarrow> string" where
  "strip s = rev (dropWhile isspace (rev (dropWhile isspace s)))"

definition replace_char :: "char \<Rightarrow> char \<Rightarrow> string \<Rightarrow> string" where
  \<comment> \<open>\<open>s.replace(a, b)\<close> for one-character \<open>a\<close> and \<open>b\<close>.\<close>
  "replace_char a b s = map (\<lambda>c. if c = a then b else c) s"

fun cons_first :: "char \<Rightarrow> string list \<Rightarrow> string list" where
  "cons_first x [] = [[x]]"
| "cons_first x (w # ws) = (x # w) # ws"

fun split_char :: "char \<Rightarrow> string \<Rightarrow> string list" where
  \<comment> \<open>\<open>s.split(sep)\<close> for a one-character separator: the empty string gives one empty piece.\<close>
  "split_char sep [] = [[]]"
| "split_char sep (x # xs) =
     (if x = sep then [] # split_char sep xs else cons_first x (split_char sep xs))"

fun split_double_space :: "string \<Rightarrow> string list" where
  \<comment> \<open>\<open>s.split("  ")\<close>: separators are found left to right and do not overlap.\<close>
  "split_double_space [] = [[]]"
| "split_double_space [x] = [[x]]"
| "split_double_space (x # y # xs) =
     (if x = CHR '' '' \<and> y = CHR '' '' then [] # split_double_space xs
      else cons_first x (split_double_space (y # xs)))"

fun splitlines_from :: "string \<Rightarrow> string \<Rightarrow> string list" where
  \<comment> \<open>first argument: the current line, reversed. A final line break opens no new line.\<close>
  "splitlines_from cur [] = (if cur = [] then [] else [rev cur])"
| "splitlines_from cur [x] = (if is_linebreak x then [rev cur] else [rev (x # cur)])"
| "splitlines_from cur (x # y # ys) =
     (if x = CHR 0x0D \<and> y = CHR 0x0A then rev cur # splitlines_from [] ys
      else if is_linebreak x then rev cur # splitlines_from [] (y # ys)
      else splitlines_from (x # cur) (y # ys))"

definition splitlines :: "string \<Rightarrow> string list" where
  "splitlines s = splitlines_from [] s"

fun join :: "string \<Rightarrow> string list \<Rightarrow> string" where
  "join sep [] = []"
| "join sep [x] = x"
| "join sep (x # y # ys) = x @ sep @ join sep (y # ys)"

fun sub_space_runs :: "bool \<Rightarrow> string \<Rightarrow> string" where
  \<comment> \<open>\<open>re.sub(r'\s+', ' ', s)\<close>; the flag says that the run being read has been replaced.\<close>
  "sub_space_runs in_run [] = []"
| "sub_space_runs in_run (x # xs) =
     (if isspace x then (if in_run then sub_space_runs True xs
                         else CHR '' '' # sub_space_runs True xs)
      else x # sub_space_runs False xs)"

section \<open>Exceptions and the agent's surroundings\<close>

datatype 'a attempt = Raised | Returned 'a

record content_item =
  content :: string
  source :: string

record research_data =
  key_points :: "string list"
  recent_developments :: "string list"
  challenges :: "string list"
  future_outlook :: "string list"
  sources :: "string list"

text \<open>
  What the agent calls and does not define:
  \<^item> \<open>ddgs_text query max_results\<close>: the search; it raises, or gives results that are read
    one by one, where reading a result's \<open>href\<close> gives a URL or raises;
  \<^item> \<open>get_text url\<close>: lines 182 to 211, the request, the parse, the removal of unwanted tags
    and the choice of the content container; it gives the text found or raises;
  \<^item> \<open>chat_completion content_list topic\<close>: lines 83 to 118 up to \<open>message.content\<close>, the
    prompt built from the items and the topic and the answer to it, or an exception;
  \<^item> \<open>json_loads\<close>: \<open>json.loads\<close>, \<open>None\<close> when it raises;
  \<^item> \<open>set_order xs\<close>: \<open>list(set(xs))\<close>, the order in which the process enumerates the set.
\<close>

record 'j env =
  ddgs_text :: "string \<Rightarrow> int \<Rightarrow> string attempt list attempt"
  get_text :: "string \<Rightarrow> string attempt"
  chat_completion :: "content_item list \<Rightarrow> string \<Rightarrow> string attempt"
  json_loads :: "string \<Rightarrow> 'j option"
  set_order :: "string list \<Rightarrow> string list"

definition set_order_ok :: "(string list \<Rightarrow> string list) \<Rightarrow> bool" where
  \<comment> \<open>\<open>list(set(xs))\<close> holds each element of \<open>xs\<close> once, in some order.\<close>
  "set_order_ok f = (\<forall>xs. distinct (f xs) \<and> set (f xs) = set xs)"

text \<open>
  \<open>self.research_data\<close> is the record of \<open>__init__\<close> until \<open>research_topic\<close> stores the result
  of \<open>_analyze_with_openai\<close> in it, which is a record of \<open>_fallback_analysis\<close> or whatever
  \<open>json.loads\<close> returned. \<open>client_available\<close> is set once, in \<open>setup_openai\<close>: an agent
  without a client only ever runs \<open>_keyword_analysis\<close> on its record.
\<close>

datatype 'j stored = Record research_data | Parsed 'j

datatype 'j agent = Basic research_data | WithClient "'j stored"

definition empty_research_data :: research_data where
  "empty_research_data = \<lparr>key_points = [], recent_developments = [], challenges = [],
     future_outlook = [], sources = []\<rparr>"

definition init_agent :: "bool \<Rightarrow> 'j agent" where
  "init_agent client_available =
     (if client_available then WithClient (Record empty_research_data)
      else Basic empty_research_data)"

section \<open>Source discovery\<close>

definition reliable_domains :: "string list" where
  "reliable_domains =
     [''wikipedia.org'', ''arxiv.org'', ''nature.com'', ''science.org'',
      ''technologyreview.com'', ''ieee.org'', ''acm.org'', ''nist.gov'',
      ''mit.edu'', ''stanford.edu'', ''researchgate.net'', ''springer.com'',
      ''sciencedirect.com'', ''towardsdatascience.com'', ''techcrunch.com'',
      ''medium.com'', ''github.com'', ''stackoverflow.com'']"

definition is_reliable_source :: "string \<Rightarrow> bool" where
  "is_reliable_source url = list_ex (\<lambda>domain. sublist domain (lower url)) reliable_domains"

definition get_mock_sources :: "string \<Rightarrow> string list" where
  "get_mock_sources topic =
     [''https://en.wikipedia.org/wiki/'' @ replace_char (CHR '' '') (CHR ''_'') topic,
      ''https://arxiv.org/list/cs/recent'',
      ''https://www.technologyreview.com/'']"

fun collect_sources :: "int \<Rightarrow> string attempt list \<Rightarrow> string list \<Rightarrow> string list attempt" where
  \<comment> \<open>the loop of lines 150 to 156 over the results; the last argument is the list \<open>sources\<close>.\<close>
  "collect_sources num_sources [] srcs = Returned srcs"
| "collect_sources num_sources (Raised # results) srcs = Raised"
| "collect_sources num_sources (Returned url # results) srcs =
     (if is_reliable_source url then
        (let srcs' = srcs @ [url] in
         if int (length srcs') \<ge> num_sources then Returned srcs'
         else collect_sources num_sources results srcs')
      else collect_sources num_sources results srcs)"

definition search_web :: "'j env \<Rightarrow> string \<Rightarrow> int \<Rightarrow> string list" where
  "search_web env topic num_sources =
     (case ddgs_text env (topic @ '' technology research 2024'') (num_sources + 2) of
        Raised \<Rightarrow> get_mock_sources topic
      | Returned results \<Rightarrow>
          (case collect_sources num_sources results [] of
             Raised \<Rightarrow> get_mock_sources topic
           | Returned srcs \<Rightarrow> if srcs \<noteq> [] then srcs else get_mock_sources topic))"

section \<open>Content extraction\<close>

definition normalize_text :: "string \<Rightarrow> string" where
  \<comment> \<open>lines 214 to 219.\<close>
  "normalize_text text =
     (let lines = map strip (splitlines text);
          chunks = concat (map (\<lambda>line. map strip (split_double_space line)) lines);
          joined = join '' '' (filter (\<lambda>chunk. chunk \<noteq> []) chunks)
      in sub_space_runs False joined)"

definition extract_content :: "(string \<Rightarrow> string attempt) \<Rightarrow> string \<Rightarrow> string option" where
  "extract_content fetch url =
     (case fetch url of
        Raised \<Rightarrow> None
      | Returned raw \<Rightarrow>
          (let text = normalize_text raw in
           if text \<noteq> [] then Some (strip (take 2500 text)) else None))"

fun extract_all :: "(string \<Rightarrow> string attempt) \<Rightarrow> string list \<Rightarrow> content_item list" where
  \<comment> \<open>the loop of lines 49 to 57; an empty string is falsy as \<open>None\<close> is.\<close>
  "extract_all fetch [] = []"
| "extract_all fetch (url # urls) =
     (case extract_content fetch url of
        None \<Rightarrow> extract_all fetch urls
      | Some c \<Rightarrow> if c \<noteq> [] then \<lparr>content = c, source = url\<rparr> # extract_all fetch urls
                  else extract_all fetch urls)"

section \<open>Keyword analysis\<close>

definition key_point_keywords :: "string list" where
  "key_point_keywords = [''breakthrough'', ''advance'', ''discovery'', ''innovation'',
     ''developed'', ''created'', ''achieved'', ''successful'']"

definition challenge_keywords :: "string list" where
  "challenge_keywords = [''challenge'', ''limitation'', ''problem'', ''issue'',
     ''difficult'', ''hard'', ''bottleneck'', ''constraint'']"

definition future_keywords :: "string list" where
  "future_keywords = [''future'', ''outlook'', ''prediction'', ''trend'', ''will'',
     ''expected'', ''potential'', ''prospect'']"

definition any_keyword :: "string list \<Rightarrow> string \<Rightarrow> bool" where
  "any_keyword keywords sentence_lower = list_ex (\<lambda>keyword. sublist keyword sentence_lower) keywords"

definition classify_sentence :: "string \<Rightarrow> research_data \<Rightarrow> research_data" where
  \<comment> \<open>the body of the loop of lines 259 to 271.\<close>
  "classify_sentence sentence rd =
     (let clean_sentence = strip sentence in
      if length clean_sentence > 30 \<and> length clean_sentence < 300 then
        (let sentence_lower = lower clean_sentence;
             rd1 = (if any_keyword key_point_keywords sentence_lower
                    then rd\<lparr>key_points := key_points rd @ [take 250 clean_sentence]\<rparr> else rd);
             rd2 = (if any_keyword challenge_keywords sentence_lower
                    then rd1\<lparr>challenges := challenges rd1 @ [take 250 clean_sentence]\<rparr> else rd1)
         in (if any_keyword future_keywords sentence_lower
             then rd2\<lparr>future_outlook := future_outlook rd2 @ [take 250 clean_sentence]\<rparr> else rd2))
      else rd)"

fun scan_sentences :: "string list \<Rightarrow> research_data \<Rightarrow> research_data" where
  "scan_sentences [] rd = rd"
| "scan_sentences (sentence # sentences) rd = scan_sentences sentences (classify_sentence sentence rd)"

definition keyword_analysis ::
  "(string list \<Rightarrow> string list) \<Rightarrow> string \<Rightarrow> string \<Rightarrow> research_data \<Rightarrow> research_data" where
  "keyword_analysis enum text source_url rd =
     (let rd1 = scan_sentences (split_char (CHR ''.'') text) rd;
          rd2 = rd1\<lparr>recent_developments :=
                  (if key_points rd1 \<noteq> [] then take 2 (key_points rd1)
                   else [''Recent developments in the field''])\<rparr>;
          rd3 = (if source_url \<notin> set (sources rd2)
                 then rd2\<lparr>sources := sources rd2 @ [source_url]\<rparr> else rd2)
      in rd3\<lparr>key_points := take 4 (enum (key_points rd3)),
             challenges := take 4 (enum (challenges rd3)),
             future_outlook := take 4 (enum (future_outlook rd3))\<rparr>)"

fun analyze_items ::
  "(string list \<Rightarrow> string list) \<Rightarrow> content_item list \<Rightarrow> research_data \<Rightarrow> research_data" where
  \<comment> \<open>\<open>for item in ...: self._keyword_analysis(item['content'], item['source'], ...)\<close>.\<close>
  "analyze_items enum [] rd = rd"
| "analyze_items enum (item # items) rd =
     analyze_items enum items (keyword_analysis enum (content item) (source item) rd)"

definition fallback_analysis ::
  "(string list \<Rightarrow> string list) \<Rightarrow> content_item list \<Rightarrow> research_data" where
  "fallback_analysis enum content_list =
     (let rd = analyze_items enum content_list empty_research_data;
          rd1 = (if key_points rd = []
                 then rd\<lparr>key_points := [''Key findings extracted from research content'']\<rparr>
                 else rd);
          rd2 = (if challenges rd1 = []
                 then rd1\<lparr>challenges := [''Various technical challenges identified'']\<rparr>
                 else rd1);
          rd3 = (if future_outlook rd2 = []
                 then rd2\<lparr>future_outlook := [''Promising future developments expected'']\<rparr>
                 else rd2)
      in rd3\<lparr>sources := map source content_list\<rparr>)"

section \<open>Analysis by the language model\<close>

definition clean_response :: "string \<Rightarrow> string" where
  \<comment> \<open>lines 118 to 125.\<close>
  "clean_response raw =
     (let a0 = strip raw;
          a1 = (if prefix ''```json'' a0 then drop 7 a0 else a0);
          a2 = (if suffix ''```'' a1 then take (length a1 - 3) a1 else a1)
      in strip a2)"

definition parse_response :: "(string \<Rightarrow> 'j option) \<Rightarrow> string \<Rightarrow> 'j option" where
  "parse_response loads raw = loads (clean_response raw)"

definition analyze_with_openai :: "'j env \<Rightarrow> content_item list \<Rightarrow> string \<Rightarrow> 'j stored" where
  "analyze_with_openai env content_list topic =
     (case chat_completion env content_list topic of
        Raised \<Rightarrow> Record (fallback_analysis (set_order env) content_list)
      | Returned raw \<Rightarrow>
          (case parse_response (json_loads env) raw of
             None \<Rightarrow> Record (fallback_analysis (set_order env) content_list)
           | Some j \<Rightarrow> Parsed j))"

section \<open>The research operation\<close>

definition get_mock_research_data :: "string \<Rightarrow> research_data" where
  "get_mock_research_data topic =
     \<lparr>key_points =
        [''Recent advances in '' @ topic @ '' show promising results for practical applications'',
         ''Major tech companies are investing heavily in '' @ topic @ '' research and development'',
         ''New algorithms and approaches in '' @ topic @ '' are solving previously intractable problems''],
      recent_developments =
        [''Breakthrough in '' @ topic @ '' stability and performance achieved in recent studies'',
         ''New government and private funding initiatives for '' @ topic @ '' research announced''],
      challenges =
        [''Scalability remains a major challenge for widespread '' @ topic @ '' adoption'',
         ''Technical limitations and resource requirements in '' @ topic @ '' need further research''],
      future_outlook =
        [''Industry experts predict '' @ topic @ '' will become commercially viable within 5-10 years'',
         topic @ '' is expected to revolutionize multiple industries including healthcare, finance, and logistics''],
      sources =
        [''https://en.wikipedia.org/wiki/Demonstration'',
         ''https://example.com/technical-research'',
         ''https://example.com/industry-analysis'']\<rparr>"

definition research_body ::
  "'j env \<Rightarrow> 'j agent \<Rightarrow> string \<Rightarrow> int \<Rightarrow> ('j stored \<times> 'j agent) attempt" where
  \<comment> \<open>lines 40 to 73: the value returned and the agent afterwards.\<close>
  "research_body env agent topic num_sources =
     (let found = search_web env topic num_sources in
      if found = [] then Returned (Record (get_mock_research_data topic), agent)
      else
        (let all_content = extract_all (get_text env) found in
         if all_content = [] then Returned (Record (get_mock_research_data topic), agent)
         else
           (case agent of
              WithClient old \<Rightarrow>
                (let r = analyze_with_openai env all_content topic
                 in Returned (r, WithClient r))
            | Basic rd \<Rightarrow>
                (let rd' = analyze_items (set_order env) all_content rd
                 in Returned (Record rd', Basic rd')))))"

definition research_topic ::
  "'j env \<Rightarrow> 'j agent \<Rightarrow> string \<Rightarrow> int \<Rightarrow> ('j stored \<times> 'j agent) attempt" where
  \<comment> \<open>the \<open>try\<close> of line 39 with its handler of lines 75 to 77.\<close>
  "research_topic env agent topic num_sources =
     (case research_body env agent topic num_sources of
        Raised \<Rightarrow> Returned (Record (get_mock_research_data topic), agent)
      | Returned r \<Rightarrow> Returned r)"

section \<open>Predicates of the specification\<close>

text \<open>
  The specification's account of what a category receives from a list of sentences: the
  stripped sentences of length strictly between 30 and 300 whose lowercased text contains one
  of the category's keywords, each cut to 250 characters, in order. It is compared below with
  \<^const>\<open>scan_sentences\<close>, the loop of the source.
\<close>

definition appended_to :: "string list \<Rightarrow> string list \<Rightarrow> string list" where
  "appended_to keywords sentences =
     map (take 250)
       (filter (\<lambda>s. 30 < length s \<and> length s < 300 \<and> any_keyword keywords (lower s))
          (map strip sentences))"

text \<open>
  The two conditions the specification puts on a record: entries of at most 250 characters in
  the four text lists, and five lists that are not empty.
\<close>

definition short_entries :: "research_data \<Rightarrow> bool" where
  "short_entries rd = list_all (\<lambda>e. length e \<le> 250)
     (key_points rd @ recent_developments rd @ challenges rd @ future_outlook rd)"

definition all_nonempty :: "research_data \<Rightarrow> bool" where
  "all_nonempty rd = (key_points rd \<noteq> [] \<and> recent_developments rd \<noteq> [] \<and> challenges rd \<noteq> [] \<and>
     future_outlook rd \<noteq> [] \<and> sources rd \<noteq> [])"

fun agent_short :: "'j agent \<Rightarrow> bool" where
  "agent_short (Basic rd) = short_entries rd"
| "agent_short (WithClient v) = True"

fun has_client :: "'j agent \<Rightarrow> bool" where
  "has_client (Basic rd) = False"
| "has_client (WithClient v) = True"

section \<open>Scenarios\<close>

text \<open>
  Surroundings used to run the agent on concrete inputs. In \<open>offline_env\<close> the search, every
  request and the language model raise.
\<close>

definition offline_env :: "unit env" where
  "offline_env = \<lparr>ddgs_text = (\<lambda>query max_results. Raised), get_text = (\<lambda>url. Raised),
     chat_completion = (\<lambda>content_list topic. Raised), json_loads = (\<lambda>s. None),
     set_order = remdups\<rparr>"

text \<open>
  In \<open>no_results_env\<close> the search returns no result; in \<open>mixed_results_env\<close> it returns three
  results, the second from a domain that is not listed.
\<close>

definition no_results_env :: "unit env" where
  "no_results_env = \<lparr>ddgs_text = (\<lambda>query max_results. Returned []),
     get_text = (\<lambda>url. Raised), chat_completion = (\<lambda>content_list topic. Raised),
     json_loads = (\<lambda>s. None), set_order = remdups\<rparr>"

definition mixed_results_env :: "unit env" where
  "mixed_results_env = \<lparr>ddgs_text = (\<lambda>query max_results.
        Returned [Returned ''https://en.wikipedia.org/wiki/Qubit'',
                  Returned ''https://totally-random-blog.test/qubits'',
                  Returned ''https://arxiv.org/abs/2401.00001'']),
     get_text = (\<lambda>url. Raised), chat_completion = (\<lambda>content_list topic. Raised),
     json_loads = (\<lambda>s. None), set_order = remdups\<rparr>"

text \<open>
  In \<open>two_topics_env\<close> the search finds one page for the topic "alpha" and another for any
  other topic; the first page has one sentence for each category, the second has none. There
  is no language model. In \<open>repeated_result_env\<close> the search returns the same URL twice and the
  language model raises.
\<close>

definition two_topics_env :: "(string list \<Rightarrow> string list) \<Rightarrow> unit env" where
  "two_topics_env enum = \<lparr>ddgs_text = (\<lambda>query max_results.
        if query = ''alpha technology research 2024''
        then Returned [Returned ''https://arxiv.org/abs/alpha'']
        else Returned [Returned ''https://arxiv.org/abs/beta'']),
     get_text = (\<lambda>url.
        if url = ''https://arxiv.org/abs/alpha''
        then Returned ''Researchers achieved a breakthrough in alpha devices. Cooling them remains a hard problem for every laboratory. The future of alpha devices looks bright''
        else Returned ''Beta is the second letter of the Greek alphabet''),
     chat_completion = (\<lambda>content_list topic. Raised), json_loads = (\<lambda>s. None),
     set_order = enum\<rparr>"

definition repeated_result_env :: "unit env" where
  "repeated_result_env = \<lparr>ddgs_text = (\<lambda>query max_results.
        Returned [Returned ''https://arxiv.org/abs/alpha'', Returned ''https://arxiv.org/abs/alpha'']),
     get_text = (\<lambda>url. Returned ''Researchers achieved a breakthrough in alpha devices''),
     chat_completion = (\<lambda>content_list topic. Raised), json_loads = (\<lambda>s. None),
     set_order = remdups\<rparr>"




definition alpha_record :: research_data where
  "alpha_record = \<lparr>key_points = [''Researchers achieved a breakthrough in alpha devices''],
     recent_developments = [''Researchers achieved a breakthrough in alpha devices''],
     challenges = [''Cooling them remains a hard problem for every laboratory''],
     future_outlook = [''The future of alpha devices looks bright''],
     sources = [''https://arxiv.org/abs/alpha'']\<rparr>"

definition beta_record :: research_data where
  "beta_record = \<lparr>key_points = [], recent_developments = [''Recent developments in the field''],
     challenges = [], future_outlook = [], sources = [''https://arxiv.org/abs/beta'']\<rparr>"

section \<open>Facts about \<open>strip\<close>\<close>

lemma dropWhile_solid: "xs = [] \<or> \<not> P (hd xs) \<Longrightarrow> dropWhile P xs = xs"
  by (cases xs) auto

lemma length_strip_le: "length (strip s) \<le> length s"
proof -
  have "length (strip s) \<le> length (dropWhile isspace s)"
    unfolding strip_def using length_dropWhile_le [of isspace "rev (dropWhile isspace s)"] by simp
  also have "\<dots> \<le> length s" by (rule length_dropWhile_le)
  finally show ?thesis .
qed

lemma strip_ws_prefix: "list_all isspace w \<Longrightarrow> strip (w @ s) = strip s"
  by (simp add: strip_def list_all_iff dropWhile_append2)

lemma strip_ws_suffix:
  assumes "list_all isspace w"
  shows "strip (s @ w) = strip s"
proof (cases "list_all isspace s")
  case True
  have 1: "dropWhile isspace (s @ w) = []" using True assms by (auto simp: list_all_iff)
  have 2: "dropWhile isspace s = []" using True by (auto simp: list_all_iff)
  show ?thesis unfolding strip_def 1 2 by simp
next
  case False
  then obtain x where x: "x \<in> set s" "\<not> isspace x" by (auto simp: list_all_iff)
  then have 1: "dropWhile isspace (s @ w) = dropWhile isspace s @ w"
    by (simp add: dropWhile_append1)
  have 2: "dropWhile isspace (rev w @ rev (dropWhile isspace s))
      = dropWhile isspace (rev (dropWhile isspace s))"
    using assms by (intro dropWhile_append2) (auto simp: list_all_iff)
  show ?thesis unfolding strip_def 1 rev_append 2 ..
qed

lemma strip_between:
  assumes "list_all isspace w1" "list_all isspace w2"
  shows "strip (w1 @ t @ w2) = strip t"
  using assms by (simp add: strip_ws_prefix strip_ws_suffix)

lemma strip_fix:
  assumes "s = [] \<or> (\<not> isspace (hd s) \<and> \<not> isspace (last s))"
  shows "strip s = s"
proof (cases "s = []")
  case True
  then show ?thesis by (simp add: strip_def)
next
  case False
  with assms have h: "\<not> isspace (hd s)" and l: "\<not> isspace (last s)" by auto
  have 1: "dropWhile isspace s = s" using h by (simp add: dropWhile_solid)
  have "hd (rev s) = last s" using False by (simp add: hd_rev)
  then have 2: "dropWhile isspace (rev s) = rev s" using l by (simp add: dropWhile_solid)
  show ?thesis unfolding strip_def 1 2 by simp
qed

lemma strip_shape:
  "strip s = [] \<or> (\<not> isspace (hd (strip s)) \<and> \<not> isspace (last (strip s)))"
proof (cases "strip s = []")
  case True
  then show ?thesis ..
next
  case False
  define d where "d = dropWhile isspace s"
  define e where "e = dropWhile isspace (rev d)"
  have s: "strip s = rev e" by (simp add: strip_def d_def e_def)
  with False have ne: "e \<noteq> []" by simp
  then have "\<not> isspace (hd e)" unfolding e_def by (rule hd_dropWhile)
  then have l: "\<not> isspace (last (strip s))" using ne s by (simp add: last_rev)
  have "suffix e (rev d)" unfolding e_def by (rule suffix_dropWhile)
  then have "prefix (rev e) d" by (simp add: suffix_to_prefix)
  then obtain z where z: "d = rev e @ z" by (auto simp: prefix_def)
  then have dne: "d \<noteq> []" using ne by simp
  then have "\<not> isspace (hd d)" unfolding d_def by (rule hd_dropWhile)
  moreover have "hd d = hd (rev e)" using z ne by simp
  ultimately have "\<not> isspace (hd (strip s))" using s by simp
  with l show ?thesis by simp
qed

lemma strip_idem: "strip (strip s) = strip s"
  by (rule strip_fix) (rule strip_shape)

section \<open>The allow-list check\<close>

text \<open>
  C2. The claim has the host of the URL matched against the allow-list. \<open>_is_reliable_source\<close>
  looks for the domains in the whole lowercased URL: a URL whose host is \<open>en.wikipedia.org\<close>
  is accepted whatever scheme and rest it has, and a URL whose host is
  \<open>totally-random-blog.test\<close> is rejected when no listed domain occurs in its path or query,
  but accepted when one does, as with the query \<open>?ref=github.com\<close>.
\<close>

theorem is_reliable_source_reads_whole_url:
  "is_reliable_source (scheme @ ''en.wikipedia.org'' @ rest) \<and>
   is_reliable_source ''https://totally-random-blog.test/?ref=github.com'' \<and>
   \<not> is_reliable_source ''https://totally-random-blog.test/''"
proof (intro conjI)
  have "lower (scheme @ ''en.wikipedia.org'' @ rest)
      = (lower scheme @ ''en.'') @ ''wikipedia.org'' @ lower rest"
    by (simp add: lower_def lower_char_def)
  then have "sublist ''wikipedia.org'' (lower (scheme @ ''en.wikipedia.org'' @ rest))"
    by (simp only: sublist_appendI)
  then show "is_reliable_source (scheme @ ''en.wikipedia.org'' @ rest)"
    by (simp add: is_reliable_source_def reliable_domains_def)
  show "is_reliable_source ''https://totally-random-blog.test/?ref=github.com''"
    by code_simp
  show "\<not> is_reliable_source ''https://totally-random-blog.test/''"
    by code_simp
qed

section \<open>The extractor's bound\<close>

text \<open>
  C6. Whatever text the page gives, the text returned by \<open>_extract_content\<close> has at most
  2500 characters, and when the normalized text is empty the extractor returns \<open>None\<close>.
\<close>

theorem extract_content_bounded:
  "(\<forall>t. extract_content fetch url = Some t \<longrightarrow> length t \<le> 2500) \<and>
   (\<forall>raw. fetch url = Returned raw \<and> normalize_text raw = []
      \<longrightarrow> extract_content fetch url = None)"
proof (intro conjI allI impI)
  fix t assume "extract_content fetch url = Some t"
  then obtain x where "t = strip (take 2500 x)"
    by (auto simp: extract_content_def Let_def split: attempt.splits if_splits)
  moreover have "length (strip (take 2500 x)) \<le> length (take 2500 x)" by (rule length_strip_le)
  ultimately show "length t \<le> 2500" by simp
next
  fix raw assume "fetch url = Returned raw \<and> normalize_text raw = []"
  then show "extract_content fetch url = None" by (simp add: extract_content_def)
qed

theorem extract_content_bounded_witness:
  "extract_content (\<lambda>u. Returned (''  Quantum   bits '' @ [CHR 0x0A] @ '' explained'')) ''u''
     = Some ''Quantum bits explained'' \<and>
   length ''Quantum bits explained'' \<le> 2500 \<and>
   normalize_text ''   '' = [] \<and> extract_content (\<lambda>u. Returned ''   '') ''u'' = None"
  using extract_content_bounded
          [of "\<lambda>u. Returned (''  Quantum   bits '' @ [CHR 0x0A] @ '' explained'')" "''u''"]
        extract_content_bounded [of "\<lambda>u. Returned ''   ''" "''u''"]
  by (simp add: extract_content_def normalize_text_def splitlines_def strip_def isspace_def
      is_linebreak_def)

section \<open>Code fences around the model's answer\<close>

lemma clean_response_plain:
  assumes "\<not> prefix ''```json'' (strip t)" "\<not> suffix ''```'' (strip t)"
  shows "clean_response t = strip t"
  using assms by (simp add: clean_response_def Let_def strip_idem)

lemma clean_response_fenced:
  assumes "list_all isspace w0" "list_all isspace w1" "list_all isspace w2" "list_all isspace w3"
  shows "clean_response (w0 @ ''```json'' @ w1 @ t @ w2 @ ''```'' @ w3) = strip t"
proof -
  let ?inner = "w1 @ t @ w2"
  let ?body = "''``json'' @ ?inner @ ''``''"
  have tick: "\<not> isspace (CHR 0x60)" by (simp add: isspace_def)
  have "strip (w0 @ ''```json'' @ w1 @ t @ w2 @ ''```'' @ w3)
      = strip ((CHR 0x60 # ?body @ [CHR 0x60]) @ w3)"
    using assms(1) by (simp add: strip_ws_prefix)
  also have "\<dots> = strip (CHR 0x60 # ?body @ [CHR 0x60])"
    using assms(4) by (rule strip_ws_suffix)
  also have "\<dots> = CHR 0x60 # ?body @ [CHR 0x60]"
    using tick by (intro strip_fix) simp
  finally have a0: "strip (w0 @ ''```json'' @ w1 @ t @ w2 @ ''```'' @ w3)
      = ''```json'' @ ?inner @ ''```''" by simp
  have a1: "prefix ''```json'' (''```json'' @ ?inner @ ''```'')"
    by (rule prefixI) simp
  have d: "drop 7 (''```json'' @ ?inner @ ''```'') = ?inner @ ''```''" by simp
  have a2: "suffix ''```'' (?inner @ ''```'')" by (rule suffixI) simp
  have k: "take (length (?inner @ ''```'') - 3) (?inner @ ''```'') = ?inner"
    by simp
  have "clean_response (w0 @ ''```json'' @ w1 @ t @ w2 @ ''```'' @ w3) = strip ?inner"
    unfolding clean_response_def Let_def a0 using a1 a2 by (simp only: d k if_True)
  then show ?thesis using assms(2,3) by (simp add: strip_between)
qed

text \<open>
  C8. An answer that is a JSON text \<open>t\<close> inside a fence, that is, the marker with the \<open>json\<close>
  tag, \<open>t\<close> and the closing marker, with any white space around the three, reaches
  \<open>json.loads\<close> as the same string as the answer \<open>t\<close> alone, so both are parsed to the same
  value or both fail. The hypotheses on \<open>t\<close> hold for every JSON text: apart from white space it
  begins with one of \<open>{ [ " - 0..9 t f n\<close> and ends with one of \<open>} ] " 0..9 e l\<close>, never with a
  backquote.
\<close>

theorem fenced_response_parsed_alike:
  assumes "list_all isspace w0" "list_all isspace w1" "list_all isspace w2" "list_all isspace w3"
      and "\<not> prefix ''```json'' (strip t)" "\<not> suffix ''```'' (strip t)"
  shows "parse_response loads (w0 @ ''```json'' @ w1 @ t @ w2 @ ''```'' @ w3)
       = parse_response loads t"
  unfolding parse_response_def
  by (simp only: clean_response_fenced [OF assms(1-4)] clean_response_plain [OF assms(5,6)])

theorem fenced_response_parsed_alike_witness:
  "parse_response Some (''```json'' @ [CHR 0x0A] @ ''[1, 2]'' @ [CHR 0x0A] @ ''```'')
     = Some ''[1, 2]''"
proof -
  have "parse_response Some ([] @ ''```json'' @ [CHR 0x0A] @ ''[1, 2]'' @ [CHR 0x0A] @ ''```'' @ [])
      = parse_response Some ''[1, 2]''"
    by (rule fenced_response_parsed_alike) (simp_all add: isspace_def strip_def suffix_to_prefix)
  moreover have "parse_response Some ''[1, 2]'' = Some ''[1, 2]''"
    by (simp add: parse_response_def clean_response_def strip_def isspace_def suffix_to_prefix)
  ultimately show ?thesis by simp
qed

section \<open>The research operation returns by tiers\<close>

lemma extract_all_none:
  "\<forall>url. extract_content fetch url = None \<Longrightarrow> extract_all fetch urls = []"
  by (induction urls) simp_all






section \<open>Sentences and categories\<close>

lemma appended_to_Nil: "appended_to kws [] = []"
  by (simp add: appended_to_def)

lemma appended_to_Cons:
  "appended_to kws (s # ss) =
     (if 30 < length (strip s) \<and> length (strip s) < 300 \<and> any_keyword kws (lower (strip s))
      then take 250 (strip s) # appended_to kws ss else appended_to kws ss)"
  by (simp add: appended_to_def)

lemma classify_sentence_fields:
  "key_points (classify_sentence s rd) = key_points rd @ appended_to key_point_keywords [s]"
  "challenges (classify_sentence s rd) = challenges rd @ appended_to challenge_keywords [s]"
  "future_outlook (classify_sentence s rd) = future_outlook rd @ appended_to future_keywords [s]"
  "recent_developments (classify_sentence s rd) = recent_developments rd"
  "sources (classify_sentence s rd) = sources rd"
  by (simp_all add: classify_sentence_def appended_to_def Let_def)

lemma scan_sentences_fields:
  "key_points (scan_sentences ss rd) = key_points rd @ appended_to key_point_keywords ss"
  "challenges (scan_sentences ss rd) = challenges rd @ appended_to challenge_keywords ss"
  "future_outlook (scan_sentences ss rd) = future_outlook rd @ appended_to future_keywords ss"
  "recent_developments (scan_sentences ss rd) = recent_developments rd"
  "sources (scan_sentences ss rd) = sources rd"
proof (induction ss arbitrary: rd)
  case Nil
  {
    case 1 show ?case by (simp add: appended_to_Nil)
  next
    case 2 show ?case by (simp add: appended_to_Nil)
  next
    case 3 show ?case by (simp add: appended_to_Nil)
  next
    case 4 show ?case by simp
  next
    case 5 show ?case by simp
  }
next
  case (Cons s ss)
  {
    case 1 show ?case by (simp add: Cons.IH classify_sentence_fields appended_to_Cons appended_to_Nil)
  next
    case 2 show ?case by (simp add: Cons.IH classify_sentence_fields appended_to_Cons appended_to_Nil)
  next
    case 3 show ?case by (simp add: Cons.IH classify_sentence_fields appended_to_Cons appended_to_Nil)
  next
    case 4 show ?case by (simp add: Cons.IH classify_sentence_fields)
  next
    case 5 show ?case by (simp add: Cons.IH classify_sentence_fields)
  }
qed

lemma set_order_single: "set_order_ok enum \<Longrightarrow> enum [x] = [x]"
proof -
  assume ok: "set_order_ok enum"
  then have d: "distinct (enum [x])" and s: "set (enum [x]) = {x}"
    by (simp_all add: set_order_ok_def)
  from d have "length (enum [x]) = card (set (enum [x]))" by (simp add: distinct_card)
  with s have "length (enum [x]) = 1" by simp
  then obtain y where "enum [x] = [y]" by (auto simp: length_Suc_conv)
  with s show ?thesis by simp
qed

lemma set_order_empty: "set_order_ok enum \<Longrightarrow> enum [] = []"
  using set_order_ok_def [of enum] by (metis set_empty)

lemma set_order_remdups: "set_order_ok remdups"
  by (simp add: set_order_ok_def)

lemma example_scan:
  "scan_sentences (split_char (CHR ''.'') ''This breakthrough in X was a challenge'') empty_research_data
     = \<lparr>key_points = [''This breakthrough in X was a challenge''], recent_developments = [],
        challenges = [''This breakthrough in X was a challenge''], future_outlook = [], sources = []\<rparr>"
  by code_simp

lemma keyword_analysis_fields:
  "key_points (keyword_analysis enum text url rd)
     = take 4 (enum (key_points rd @ appended_to key_point_keywords (split_char (CHR ''.'') text)))"
  "challenges (keyword_analysis enum text url rd)
     = take 4 (enum (challenges rd @ appended_to challenge_keywords (split_char (CHR ''.'') text)))"
  "future_outlook (keyword_analysis enum text url rd)
     = take 4 (enum (future_outlook rd @ appended_to future_keywords (split_char (CHR ''.'') text)))"
  "sources (keyword_analysis enum text url rd)
     = (if url \<notin> set (sources rd) then sources rd @ [url] else sources rd)"
  by (simp_all add: keyword_analysis_def Let_def scan_sentences_fields)

lemma keyword_analysis_recent:
  "recent_developments (keyword_analysis enum text url rd) =
     (if key_points rd @ appended_to key_point_keywords (split_char (CHR ''.'') text) \<noteq> []
      then take 2 (key_points rd @ appended_to key_point_keywords (split_char (CHR ''.'') text))
      else [''Recent developments in the field''])"
  by (simp add: keyword_analysis_def Let_def scan_sentences_fields)

lemma analyze_items_snoc:
  "analyze_items enum (items @ [item]) rd
     = keyword_analysis enum (content item) (source item) (analyze_items enum items rd)"
  by (induction items arbitrary: rd) simp_all

lemma fallback_recent:
  "recent_developments (fallback_analysis enum content_list)
     = recent_developments (analyze_items enum content_list empty_research_data)"
  by (simp add: fallback_analysis_def Let_def)

text \<open>
  C7. The loop over the sentences appends to each of the three lists exactly the kept
  sentences that match its keywords, cut to 250 characters: a sentence that matches two
  categories is appended to both. \<open>_keyword_analysis\<close> on the sentence
  "This breakthrough in X was a challenge" alone, from the empty record, returns it in
  \<open>key_points\<close> and in \<open>challenges\<close>, in whatever order \<open>list(set(...))\<close> enumerates.
\<close>

theorem scan_sentences_appends_to_each_match:
  "key_points (scan_sentences sentences rd)
     = key_points rd @ appended_to key_point_keywords sentences \<and>
   challenges (scan_sentences sentences rd)
     = challenges rd @ appended_to challenge_keywords sentences \<and>
   future_outlook (scan_sentences sentences rd)
     = future_outlook rd @ appended_to future_keywords sentences \<and>
   (set_order_ok enum \<longrightarrow>
      key_points (keyword_analysis enum ''This breakthrough in X was a challenge'' url
                    empty_research_data)
        = [''This breakthrough in X was a challenge''] \<and>
      challenges (keyword_analysis enum ''This breakthrough in X was a challenge'' url
                    empty_research_data)
        = [''This breakthrough in X was a challenge''])"
proof (intro conjI impI)
  assume ok: "set_order_ok enum"
  show "key_points (keyword_analysis enum ''This breakthrough in X was a challenge'' url
                    empty_research_data)
        = [''This breakthrough in X was a challenge'']"
    unfolding keyword_analysis_def example_scan
    by (simp add: Let_def set_order_single [OF ok])
  show "challenges (keyword_analysis enum ''This breakthrough in X was a challenge'' url
                    empty_research_data)
        = [''This breakthrough in X was a challenge'']"
    unfolding keyword_analysis_def example_scan
    by (simp add: Let_def set_order_single [OF ok])
qed (simp_all only: scan_sentences_fields)

theorem scan_sentences_appends_to_each_match_witness:
  "set_order_ok remdups \<and>
   appended_to key_point_keywords [''  This Breakthrough in X was a challenge  '', ''Too short'']
     = [''This Breakthrough in X was a challenge''] \<and>
   key_points (keyword_analysis remdups ''This breakthrough in X was a challenge'' ''u''
                 empty_research_data)
     = [''This breakthrough in X was a challenge''] \<and>
   challenges (keyword_analysis remdups ''This breakthrough in X was a challenge'' ''u''
                 empty_research_data)
     = [''This breakthrough in X was a challenge'']"
proof -
  have ok: "set_order_ok remdups" by (simp add: set_order_ok_def)
  have a: "appended_to key_point_keywords [''  This Breakthrough in X was a challenge  '', ''Too short'']
     = [''This Breakthrough in X was a challenge'']" by code_simp
  show ?thesis using ok a scan_sentences_appends_to_each_match [of "[]" empty_research_data remdups "''u''"] by simp
qed

section \<open>Recent developments\<close>

text \<open>
  C3, as amended. After the last item, \<open>recent_developments\<close> holds the first two entries of
  \<open>key_points\<close> as that list stood when the last item's sentences had been appended to the
  list left by the items before, that is, before the removal of duplicates and the cut to
  four entries that give the returned \<open>key_points\<close>; when that list is empty it holds the
  placeholder. \<open>_fallback_analysis\<close> leaves the field as the last item set it.
\<close>

theorem recent_developments_from_unpruned_key_points:
  "recent_developments (analyze_items enum (items @ [item]) rd) =
     (if key_points (analyze_items enum items rd)
           @ appended_to key_point_keywords (split_char (CHR ''.'') (content item)) \<noteq> []
      then take 2 (key_points (analyze_items enum items rd)
                     @ appended_to key_point_keywords (split_char (CHR ''.'') (content item)))
      else [''Recent developments in the field'']) \<and>
   recent_developments (fallback_analysis enum (items @ [item]))
     = recent_developments (analyze_items enum (items @ [item]) empty_research_data)"
  by (simp only: analyze_items_snoc keyword_analysis_recent fallback_recent)

text \<open>
  C3 as stated fails on a text that has the same key sentence twice: \<open>recent_developments\<close>
  holds the sentence twice, the returned \<open>key_points\<close> holds it once. The set has one element,
  so its enumeration is the same in every order.
\<close>

theorem recent_developments_counterexample:
  "recent_developments
     (analyze_items remdups
        [\<lparr>content = ''A breakthrough in quantum error correction. A breakthrough in quantum error correction.'',
          source = ''https://arxiv.org/abs/1''\<rparr>] empty_research_data)
     = [''A breakthrough in quantum error correction'', ''A breakthrough in quantum error correction''] \<and>
   key_points
     (analyze_items remdups
        [\<lparr>content = ''A breakthrough in quantum error correction. A breakthrough in quantum error correction.'',
          source = ''https://arxiv.org/abs/1''\<rparr>] empty_research_data)
     = [''A breakthrough in quantum error correction''] \<and>
   recent_developments
     (analyze_items remdups
        [\<lparr>content = ''A breakthrough in quantum error correction. A breakthrough in quantum error correction.'',
          source = ''https://arxiv.org/abs/1''\<rparr>] empty_research_data)
     \<noteq> take 2 (key_points
         (analyze_items remdups
            [\<lparr>content = ''A breakthrough in quantum error correction. A breakthrough in quantum error correction.'',
              source = ''https://arxiv.org/abs/1''\<rparr>] empty_research_data))"
  by code_simp

section \<open>The number of sources found\<close>

lemma collect_sources_all_read:
  "int (length acc) < n \<Longrightarrow>
   collect_sources n (map Returned urls) acc
     = Returned (take (nat n) (acc @ filter is_reliable_source urls))"
proof (induction urls arbitrary: acc)
  case Nil
  then show ?case by simp
next
  case (Cons u us)
  show ?case
  proof (cases "is_reliable_source u")
    case False
    then show ?thesis using Cons by simp
  next
    case True
    show ?thesis
    proof (cases "n \<le> int (length (acc @ [u]))")
      case full: True
      with Cons.prems have "nat n = length acc + 1" by simp
      then show ?thesis using True full by (simp add: Let_def)
    next
      case more: False
      then have "int (length (acc @ [u])) < n" by simp
      from Cons.IH [OF this] show ?thesis using True more by (simp add: Let_def)
    qed
  qed
qed

lemma collect_sources_length:
  "collect_sources n results acc = Returned srcs \<Longrightarrow> int (length acc) < n \<Longrightarrow>
   int (length srcs) \<le> n"
proof (induction n results acc rule: collect_sources.induct)
  case (1 n acc)
  then show ?case by simp
next
  case (2 n results acc)
  then show ?case by simp
next
  case (3 n url results acc)
  show ?case
  proof (cases "is_reliable_source url")
    case False
    with 3 show ?thesis by simp
  next
    case True
    show ?thesis
    proof (cases "n \<le> int (length (acc @ [url]))")
      case full: True
      with 3(3) True have "srcs = acc @ [url]" by (simp add: Let_def)
      with 3(4) show ?thesis by simp
    next
      case more: False
      with 3 True show ?thesis by (simp add: Let_def)
    qed
  qed
qed

lemma collect_sources_none:
  "filter is_reliable_source urls = [] \<Longrightarrow>
   collect_sources n (map Returned urls) acc = Returned acc"
  by (induction urls) (auto split: if_splits)

lemma length_mock_sources: "length (get_mock_sources topic) = 3"
  by (simp add: get_mock_sources_def)

lemma search_web_length: 
  assumes "1 \<le> n"
  shows "int (length (search_web env topic n)) \<le> max n 3"
proof (cases "ddgs_text env (topic @ '' technology research 2024'') (n + 2)")
  case Raised
  then show ?thesis by (simp add: search_web_def length_mock_sources)
next
  case (Returned results)
  show ?thesis
  proof (cases "collect_sources n results []")
    case Raised
    with Returned show ?thesis by (simp add: search_web_def length_mock_sources)
  next
    case inner: (Returned srcs)
    from collect_sources_length [OF inner] assms have "int (length srcs) \<le> n" by simp
    with Returned inner show ?thesis by (auto simp add: search_web_def length_mock_sources)
  qed
qed

text \<open>
  C5, as amended. For a count of at least 1, \<open>_search_web\<close> returns at most the count or 3
  URLs, whichever is larger (so at most the count when it is 3 or more). When the search
  gives its results without raising and some are accepted, it returns the accepted ones in
  order, up to the count, and nothing else; when none is accepted, or the search raises, it
  returns the three mock URLs, the first of which is the encyclopedia address followed by
  the topic with each space replaced by an underscore.
\<close>

theorem search_web_results:
  "(1 \<le> n \<longrightarrow> int (length (search_web env topic n)) \<le> max n 3) \<and>
   (1 \<le> n \<and> ddgs_text env (topic @ '' technology research 2024'') (n + 2)
              = Returned (map Returned urls) \<and>
      filter is_reliable_source urls \<noteq> [] \<longrightarrow>
        search_web env topic n = take (nat n) (filter is_reliable_source urls)) \<and>
   (ddgs_text env (topic @ '' technology research 2024'') (n + 2) = Returned (map Returned urls) \<and>
      filter is_reliable_source urls = [] \<longrightarrow>
        search_web env topic n = get_mock_sources topic) \<and>
   (ddgs_text env (topic @ '' technology research 2024'') (n + 2) = Raised \<longrightarrow>
        search_web env topic n = get_mock_sources topic) \<and>
   get_mock_sources topic =
     [''https://en.wikipedia.org/wiki/'' @ map (\<lambda>c. if c = CHR '' '' then CHR ''_'' else c) topic,
      ''https://arxiv.org/list/cs/recent'', ''https://www.technologyreview.com/'']"
proof (intro conjI impI)
  assume "1 \<le> n"
  then show "int (length (search_web env topic n)) \<le> max n 3" by (rule search_web_length)
next
  assume a: "1 \<le> n \<and> ddgs_text env (topic @ '' technology research 2024'') (n + 2)
              = Returned (map Returned urls) \<and> filter is_reliable_source urls \<noteq> []"
  then have "collect_sources n (map Returned urls) []
      = Returned (take (nat n) ([] @ filter is_reliable_source urls))"
    by (intro collect_sources_all_read) simp
  moreover have "take (nat n) (filter is_reliable_source urls) \<noteq> []" using a by simp
  ultimately show "search_web env topic n = take (nat n) (filter is_reliable_source urls)"
    using a by (simp add: search_web_def)
next
  assume a: "ddgs_text env (topic @ '' technology research 2024'') (n + 2)
      = Returned (map Returned urls) \<and> filter is_reliable_source urls = []"
  then have "collect_sources n (map Returned urls) [] = Returned []"
    by (simp add: collect_sources_none)
  with a show "search_web env topic n = get_mock_sources topic" by (simp add: search_web_def)
next
  assume "ddgs_text env (topic @ '' technology research 2024'') (n + 2) = Raised"
  then show "search_web env topic n = get_mock_sources topic" by (simp add: search_web_def)
next
  show "get_mock_sources topic =
     [''https://en.wikipedia.org/wiki/'' @ map (\<lambda>c. if c = CHR '' '' then CHR ''_'' else c) topic,
      ''https://arxiv.org/list/cs/recent'', ''https://www.technologyreview.com/'']"
    by (simp add: get_mock_sources_def replace_char_def)
qed

theorem search_web_results_witness:
  "search_web mixed_results_env ''quantum computing'' 3
     = [''https://en.wikipedia.org/wiki/Qubit'', ''https://arxiv.org/abs/2401.00001''] \<and>
   int (length (search_web mixed_results_env ''quantum computing'' 3)) \<le> max 3 3 \<and>
   search_web no_results_env ''quantum computing'' 3 = get_mock_sources ''quantum computing'' \<and>
   search_web offline_env ''quantum computing'' 3 = get_mock_sources ''quantum computing'' \<and>
   get_mock_sources ''quantum computing''
     = [''https://en.wikipedia.org/wiki/quantum_computing'', ''https://arxiv.org/list/cs/recent'',
        ''https://www.technologyreview.com/'']"
proof -
  let ?urls = "[''https://en.wikipedia.org/wiki/Qubit'', ''https://totally-random-blog.test/qubits'',
                ''https://arxiv.org/abs/2401.00001'']"
  have f: "filter is_reliable_source ?urls
      = [''https://en.wikipedia.org/wiki/Qubit'', ''https://arxiv.org/abs/2401.00001'']"
    by code_simp
  have d: "ddgs_text mixed_results_env (''quantum computing'' @ '' technology research 2024'') (3 + 2)
      = Returned (map Returned ?urls)"
    by (simp add: mixed_results_env_def)
  have e: "ddgs_text no_results_env (''quantum computing'' @ '' technology research 2024'') (3 + 2)
      = Returned (map Returned [])"
    by (simp add: no_results_env_def)
  have r: "ddgs_text offline_env (''quantum computing'' @ '' technology research 2024'') (3 + 2)
      = Raised"
    by (simp add: offline_env_def)
  have 1: "search_web mixed_results_env ''quantum computing'' 3
      = take (nat 3) (filter is_reliable_source ?urls)"
    using search_web_results [of 3 mixed_results_env "''quantum computing''" ?urls] d f by simp
  have 2: "int (length (search_web mixed_results_env ''quantum computing'' 3)) \<le> max 3 3"
    using search_web_results [of 3 mixed_results_env "''quantum computing''" ?urls] by simp
  have 3: "search_web no_results_env ''quantum computing'' 3 = get_mock_sources ''quantum computing''"
    using search_web_results [of 3 no_results_env "''quantum computing''" "[]"] e by simp
  have 4: "search_web offline_env ''quantum computing'' 3 = get_mock_sources ''quantum computing''"
    using search_web_results [of 3 offline_env "''quantum computing''" "[]"] r by simp
  have 5: "get_mock_sources ''quantum computing''
     = [''https://en.wikipedia.org/wiki/quantum_computing'', ''https://arxiv.org/list/cs/recent'',
        ''https://www.technologyreview.com/'']"
    using search_web_results [of 3 offline_env "''quantum computing''" "[]"] by simp
  from 1 2 3 4 5 f show ?thesis by simp
qed

text \<open>
  C5 as stated fails for a count below 3: with a count of 1 and no result, the three mock
  URLs are returned.
\<close>

theorem search_web_count_counterexample:
  "length (search_web no_results_env ''quantum computing'' 1) = 3 \<and>
   \<not> int (length (search_web no_results_env ''quantum computing'' 1)) \<le> 1"
  by (simp add: search_web_def no_results_env_def get_mock_sources_def)

section \<open>The shape of the record returned\<close>

lemma appended_to_short: "e \<in> set (appended_to kws ss) \<Longrightarrow> length e \<le> 250"
  by (auto simp: appended_to_def)

lemma take_enum_short:
  assumes "set_order_ok enum" "\<forall>e\<in>set xs. length e \<le> (250::nat)"
  shows "\<forall>e\<in>set (take 4 (enum xs)). length e \<le> 250"
proof
  fix e assume "e \<in> set (take 4 (enum xs))"
  then have "e \<in> set (enum xs)" by (rule in_set_takeD)
  with assms(1) have "e \<in> set xs" by (simp add: set_order_ok_def)
  with assms(2) show "length e \<le> 250" by simp
qed

lemma keyword_analysis_short:
  assumes ok: "set_order_ok enum" and sh: "short_entries rd"
  shows "short_entries (keyword_analysis enum text url rd)"
proof -
  have k: "\<forall>e\<in>set (key_points (keyword_analysis enum text url rd)). length e \<le> 250"
    unfolding keyword_analysis_fields using sh
    by (intro take_enum_short [OF ok]) (auto simp: short_entries_def list_all_iff dest: appended_to_short)
  have c: "\<forall>e\<in>set (challenges (keyword_analysis enum text url rd)). length e \<le> 250"
    unfolding keyword_analysis_fields using sh
    by (intro take_enum_short [OF ok]) (auto simp: short_entries_def list_all_iff dest: appended_to_short)
  have f: "\<forall>e\<in>set (future_outlook (keyword_analysis enum text url rd)). length e \<le> 250"
    unfolding keyword_analysis_fields using sh
    by (intro take_enum_short [OF ok]) (auto simp: short_entries_def list_all_iff dest: appended_to_short)
  have r: "\<forall>e\<in>set (recent_developments (keyword_analysis enum text url rd)). length e \<le> 250"
    unfolding keyword_analysis_recent using sh
    by (auto simp: short_entries_def list_all_iff dest!: in_set_takeD dest: appended_to_short)
  from k c f r show ?thesis by (auto simp: short_entries_def list_all_iff)
qed

lemma keyword_analysis_nonempty:
  "recent_developments (keyword_analysis enum text url rd) \<noteq> []"
  "sources (keyword_analysis enum text url rd) \<noteq> []"
  by (auto simp: keyword_analysis_recent keyword_analysis_fields)

lemma analyze_items_short:
  "set_order_ok enum \<Longrightarrow> short_entries rd \<Longrightarrow> short_entries (analyze_items enum items rd)"
  by (induction items arbitrary: rd) (simp_all add: keyword_analysis_short)

lemma analyze_items_nonempty:
  assumes "items \<noteq> []"
  shows "recent_developments (analyze_items enum items rd) \<noteq> []"
    and "sources (analyze_items enum items rd) \<noteq> []"
proof -
  from assms obtain its it where "items = its @ [it]" by (metis rev_exhaust)
  then show "recent_developments (analyze_items enum items rd) \<noteq> []"
    and "sources (analyze_items enum items rd) \<noteq> []"
    by (simp_all only: analyze_items_snoc keyword_analysis_nonempty not_False_eq_True)
qed

lemma short_empty: "short_entries empty_research_data"
  by (simp add: short_entries_def empty_research_data_def)

lemma fallback_analysis_shape:
  assumes ok: "set_order_ok enum" and ne: "content_list \<noteq> []"
  shows "short_entries (fallback_analysis enum content_list)"
    and "all_nonempty (fallback_analysis enum content_list)"
proof -
  let ?rd = "analyze_items enum content_list empty_research_data"
  have sh: "short_entries ?rd" using ok short_empty by (rule analyze_items_short)
  then show "short_entries (fallback_analysis enum content_list)"
    by (simp add: fallback_analysis_def Let_def short_entries_def)
  have "recent_developments ?rd \<noteq> []" using ne by (rule analyze_items_nonempty)
  then show "all_nonempty (fallback_analysis enum content_list)"
    using ne by (simp add: fallback_analysis_def Let_def all_nonempty_def)
qed

lemma mock_nonempty: "all_nonempty (get_mock_research_data topic)"
  by (simp add: all_nonempty_def get_mock_research_data_def)

lemma mock_short: "length topic \<le> 150 \<Longrightarrow> short_entries (get_mock_research_data topic)"
  by (simp add: short_entries_def get_mock_research_data_def)

lemma analyze_with_openai_shape:
  assumes ok: "set_order_ok (set_order env)" and ne: "content_list \<noteq> []"
  shows "case analyze_with_openai env content_list topic of
           Parsed j \<Rightarrow> True
         | Record r \<Rightarrow> short_entries r \<and> all_nonempty r"
  using fallback_analysis_shape [OF ok ne]
  by (simp add: analyze_with_openai_def split: attempt.splits option.splits)

text \<open>
  C1, as amended. \<open>research_topic\<close> returns, and the agent's record keeps entries of at most
  250 characters if it had them. The value returned is what \<open>json.loads\<close> made of the language
  model's answer, for an agent with a client only, or a record. In a record \<open>sources\<close> and
  \<open>recent_developments\<close> are not empty, and either it is the mock record of the topic or
  every entry of its four text lists has at most 250 characters. The mock record and the
  records of an agent with a client have five lists that are not empty. The entries of the
  mock record contain the topic as it is: they have at most 250 characters for a topic of at
  most 150.
\<close>

theorem research_topic_record_shape:
  assumes ok: "set_order_ok (set_order env)" and sh: "agent_short agent"
  shows "(\<exists>out agent'. research_topic env agent topic n = Returned (out, agent') \<and>
            agent_short agent' \<and>
            (case out of
               Parsed j \<Rightarrow> has_client agent
             | Record r \<Rightarrow>
                 recent_developments r \<noteq> [] \<and> sources r \<noteq> [] \<and>
                 (r = get_mock_research_data topic \<or> short_entries r) \<and>
                 (r = get_mock_research_data topic \<or> has_client agent \<longrightarrow> all_nonempty r))) \<and>
         (length topic \<le> 150 \<longrightarrow> short_entries (get_mock_research_data topic))"
proof (intro conjI impI)
  assume "length topic \<le> 150"
  then show "short_entries (get_mock_research_data topic)" by (rule mock_short)
next
  let ?items = "extract_all (get_text env) (search_web env topic n)"
  have mock: "recent_developments (get_mock_research_data topic) \<noteq> []"
    "sources (get_mock_research_data topic) \<noteq> []"
    using mock_nonempty [of topic] by (simp_all add: all_nonempty_def)
  show "\<exists>out agent'. research_topic env agent topic n = Returned (out, agent') \<and>
            agent_short agent' \<and>
            (case out of
               Parsed j \<Rightarrow> has_client agent
             | Record r \<Rightarrow>
                 recent_developments r \<noteq> [] \<and> sources r \<noteq> [] \<and>
                 (r = get_mock_research_data topic \<or> short_entries r) \<and>
                 (r = get_mock_research_data topic \<or> has_client agent \<longrightarrow> all_nonempty r))"
  proof (cases "search_web env topic n = [] \<or> ?items = []")
    case True
    then have "research_topic env agent topic n
        = Returned (Record (get_mock_research_data topic), agent)"
      by (auto simp: research_topic_def research_body_def Let_def)
    then show ?thesis using sh mock mock_nonempty [of topic] by simp
  next
    case False
    then have ne: "?items \<noteq> []" and found: "search_web env topic n \<noteq> []" by simp_all
    show ?thesis
    proof (cases agent)
      case (Basic rd)
      let ?r = "analyze_items (set_order env) ?items rd"
      have run: "research_topic env agent topic n = Returned (Record ?r, Basic ?r)"
        using Basic ne found by (simp add: research_topic_def research_body_def Let_def)
      have "short_entries ?r" using ok sh Basic by (simp add: analyze_items_short)
      moreover have "recent_developments ?r \<noteq> []" "sources ?r \<noteq> []"
        using ne by (rule analyze_items_nonempty)+
      ultimately show ?thesis using run Basic by (simp add: mock_nonempty)
    next
      case (WithClient old)
      let ?v = "analyze_with_openai env ?items topic"
      have run: "research_topic env agent topic n = Returned (?v, WithClient ?v)"
        using WithClient ne found by (simp add: research_topic_def research_body_def Let_def)
      show ?thesis
      proof (cases ?v)
        case (Parsed j)
        with run WithClient show ?thesis by simp
      next
        case (Record r)
        with analyze_with_openai_shape [OF ok ne, of topic]
        have "short_entries r" "all_nonempty r" by simp_all
        with run Record WithClient show ?thesis by (simp add: all_nonempty_def)
      qed
    qed
  qed
qed

section \<open>Runs of the scenarios\<close>

lemma offline_extract: "extract_all (get_text offline_env) urls = []"
  by (rule extract_all_none) (simp add: extract_content_def offline_env_def)

lemma alpha_search: "search_web (two_topics_env enum) ''alpha'' 3 = [''https://arxiv.org/abs/alpha'']"
proof -
  have "is_reliable_source ''https://arxiv.org/abs/alpha''" by code_simp
  then show ?thesis by (simp add: search_web_def two_topics_env_def)
qed

lemma beta_search: "search_web (two_topics_env enum) ''beta'' 3 = [''https://arxiv.org/abs/beta'']"
proof -
  have "is_reliable_source ''https://arxiv.org/abs/beta''" by code_simp
  then show ?thesis by (simp add: search_web_def two_topics_env_def)
qed

lemma alpha_extract:
  "extract_all (get_text (two_topics_env enum)) [''https://arxiv.org/abs/alpha'']
     = [\<lparr>content = ''Researchers achieved a breakthrough in alpha devices. Cooling them remains a hard problem for every laboratory. The future of alpha devices looks bright'',
         source = ''https://arxiv.org/abs/alpha''\<rparr>]"
proof -
  have "extract_content (\<lambda>url. Returned ''Researchers achieved a breakthrough in alpha devices. Cooling them remains a hard problem for every laboratory. The future of alpha devices looks bright'') ''https://arxiv.org/abs/alpha''
      = Some ''Researchers achieved a breakthrough in alpha devices. Cooling them remains a hard problem for every laboratory. The future of alpha devices looks bright''"
    by code_simp
  then show ?thesis by (simp add: two_topics_env_def extract_content_def)
qed

lemma beta_extract:
  "extract_all (get_text (two_topics_env enum)) [''https://arxiv.org/abs/beta'']
     = [\<lparr>content = ''Beta is the second letter of the Greek alphabet'',
         source = ''https://arxiv.org/abs/beta''\<rparr>]"
proof -
  have "extract_content (\<lambda>url. Returned ''Beta is the second letter of the Greek alphabet'') ''https://arxiv.org/abs/beta''
      = Some ''Beta is the second letter of the Greek alphabet''"
    by code_simp
  then show ?thesis by (simp add: two_topics_env_def extract_content_def)
qed

lemma alpha_scan:
  "scan_sentences (split_char (CHR ''.'') ''Researchers achieved a breakthrough in alpha devices. Cooling them remains a hard problem for every laboratory. The future of alpha devices looks bright'') empty_research_data
     = alpha_record\<lparr>recent_developments := []\<rparr>\<lparr>sources := []\<rparr>"
  by code_simp

lemma beta_scan_fresh:
  "scan_sentences (split_char (CHR ''.'') ''Beta is the second letter of the Greek alphabet'') empty_research_data
     = empty_research_data"
  by code_simp

lemma beta_scan_after:
  "scan_sentences (split_char (CHR ''.'') ''Beta is the second letter of the Greek alphabet'') alpha_record
     = alpha_record"
  by code_simp

lemma run_alpha:
  assumes "set_order_ok enum"
  shows "research_topic (two_topics_env enum) (Basic empty_research_data) ''alpha'' 3
     = Returned (Record alpha_record, Basic alpha_record)"
proof -
  have "keyword_analysis enum ''Researchers achieved a breakthrough in alpha devices. Cooling them remains a hard problem for every laboratory. The future of alpha devices looks bright'' ''https://arxiv.org/abs/alpha'' empty_research_data = alpha_record"
    unfolding keyword_analysis_def alpha_scan
    by (simp add: alpha_record_def Let_def set_order_single [OF assms])
  moreover have "set_order (two_topics_env enum) = enum" by (simp add: two_topics_env_def)
  ultimately show ?thesis
    unfolding research_topic_def research_body_def Let_def alpha_search alpha_extract
    by simp
qed

lemma run_beta_fresh:
  assumes "set_order_ok enum"
  shows "research_topic (two_topics_env enum) (Basic empty_research_data) ''beta'' 3
     = Returned (Record beta_record, Basic beta_record)"
proof -
  have "keyword_analysis enum ''Beta is the second letter of the Greek alphabet'' ''https://arxiv.org/abs/beta'' empty_research_data = beta_record"
    unfolding keyword_analysis_def beta_scan_fresh
    by (simp add: beta_record_def empty_research_data_def Let_def set_order_empty [OF assms])
  moreover have "set_order (two_topics_env enum) = enum" by (simp add: two_topics_env_def)
  ultimately show ?thesis
    unfolding research_topic_def research_body_def Let_def beta_search beta_extract
    by simp
qed

lemma run_beta_after_alpha:
  assumes "set_order_ok enum"
  shows "research_topic (two_topics_env enum) (Basic alpha_record) ''beta'' 3
     = Returned (Record (alpha_record\<lparr>sources := [''https://arxiv.org/abs/alpha'', ''https://arxiv.org/abs/beta'']\<rparr>),
                 Basic (alpha_record\<lparr>sources := [''https://arxiv.org/abs/alpha'', ''https://arxiv.org/abs/beta'']\<rparr>))"
proof -
  have "keyword_analysis enum ''Beta is the second letter of the Greek alphabet'' ''https://arxiv.org/abs/beta'' alpha_record
      = alpha_record\<lparr>sources := [''https://arxiv.org/abs/alpha'', ''https://arxiv.org/abs/beta'']\<rparr>"
    unfolding keyword_analysis_def beta_scan_after
    by (simp add: alpha_record_def Let_def set_order_single [OF assms])
  moreover have "set_order (two_topics_env enum) = enum" by (simp add: two_topics_env_def)
  ultimately show ?thesis
    unfolding research_topic_def research_body_def Let_def beta_search beta_extract
    by simp
qed

theorem research_topic_record_shape_witness:
  "set_order_ok (set_order (two_topics_env remdups)) \<and> agent_short (init_agent False :: unit agent) \<and>
   research_topic (two_topics_env remdups) (init_agent False) ''alpha'' 3
     = Returned (Record alpha_record, Basic alpha_record) \<and>
   recent_developments alpha_record \<noteq> [] \<and> sources alpha_record \<noteq> [] \<and>
   short_entries alpha_record \<and> agent_short (Basic alpha_record :: unit agent) \<and>
   length ''alpha'' \<le> 150 \<and> short_entries (get_mock_research_data ''alpha'')"
proof -
  have ok: "set_order_ok (set_order (two_topics_env remdups))"
    by (simp add: two_topics_env_def set_order_remdups)
  have sh: "agent_short (init_agent False :: unit agent)"
    by (simp add: init_agent_def short_empty)
  have run: "research_topic (two_topics_env remdups) (init_agent False) ''alpha'' 3
     = Returned (Record alpha_record, Basic alpha_record)"
    using run_alpha [OF set_order_remdups] by (simp add: init_agent_def)
  have ne: "alpha_record \<noteq> get_mock_research_data ''alpha''"
    by (simp add: alpha_record_def get_mock_research_data_def)
  show ?thesis
    using research_topic_record_shape [OF ok sh, of "''alpha''" 3] ok sh run ne
    by (simp add: alpha_record_def)
qed

text \<open>
  C1 as stated fails in two ways. With a topic of 300 characters and nothing found, the mock
  record is returned and its first key point has 369 characters. With a page that has no
  sentence for any category, an agent without a client returns a record whose \<open>key_points\<close>,
  \<open>challenges\<close> and \<open>future_outlook\<close> are empty.
\<close>

theorem research_topic_record_counterexample:
  "research_topic offline_env (init_agent False) (replicate 300 (CHR ''a'')) 3
     = Returned (Record (get_mock_research_data (replicate 300 (CHR ''a''))), init_agent False) \<and>
   length (hd (key_points (get_mock_research_data (replicate 300 (CHR ''a''))))) = 369 \<and>
   research_topic (two_topics_env remdups) (init_agent False) ''beta'' 3
     = Returned (Record beta_record, Basic beta_record) \<and>
   key_points beta_record = [] \<and> challenges beta_record = [] \<and> future_outlook beta_record = []"
proof (intro conjI)
  show "research_topic offline_env (init_agent False) (replicate 300 (CHR ''a'')) 3
     = Returned (Record (get_mock_research_data (replicate 300 (CHR ''a''))), init_agent False)"
    by (simp add: research_topic_def research_body_def Let_def offline_extract)
  show "length (hd (key_points (get_mock_research_data (replicate 300 (CHR ''a''))))) = 369"
    by (simp add: get_mock_research_data_def)
  show "research_topic (two_topics_env remdups) (init_agent False) ''beta'' 3
     = Returned (Record beta_record, Basic beta_record)"
    using run_beta_fresh [OF set_order_remdups] by (simp add: init_agent_def)
qed (simp_all add: beta_record_def)

section \<open>Repeated sources\<close>

text \<open>
  C4. The search returns the same URL twice and both copies are read. With a client whose
  call raises, \<open>_fallback_analysis\<close> returns the URL twice in \<open>sources\<close>; the agent without a
  client, which runs \<open>_keyword_analysis\<close> on the same two items, returns it once.
\<close>

theorem fallback_sources_keep_repeats:
  "research_topic repeated_result_env (init_agent True) ''alpha'' 3
     = Returned
        (Record
          \<lparr>key_points = [''Researchers achieved a breakthrough in alpha devices''],
           recent_developments = [''Researchers achieved a breakthrough in alpha devices'',
                                  ''Researchers achieved a breakthrough in alpha devices''],
           challenges = [''Various technical challenges identified''],
           future_outlook = [''Promising future developments expected''],
           sources = [''https://arxiv.org/abs/alpha'', ''https://arxiv.org/abs/alpha'']\<rparr>,
         WithClient (Record
          \<lparr>key_points = [''Researchers achieved a breakthrough in alpha devices''],
           recent_developments = [''Researchers achieved a breakthrough in alpha devices'',
                                  ''Researchers achieved a breakthrough in alpha devices''],
           challenges = [''Various technical challenges identified''],
           future_outlook = [''Promising future developments expected''],
           sources = [''https://arxiv.org/abs/alpha'', ''https://arxiv.org/abs/alpha'']\<rparr>)) \<and>
   research_topic repeated_result_env (init_agent False) ''alpha'' 3
     = Returned
        (Record
          \<lparr>key_points = [''Researchers achieved a breakthrough in alpha devices''],
           recent_developments = [''Researchers achieved a breakthrough in alpha devices'',
                                  ''Researchers achieved a breakthrough in alpha devices''],
           challenges = [], future_outlook = [],
           sources = [''https://arxiv.org/abs/alpha'']\<rparr>,
         Basic
          \<lparr>key_points = [''Researchers achieved a breakthrough in alpha devices''],
           recent_developments = [''Researchers achieved a breakthrough in alpha devices'',
                                  ''Researchers achieved a breakthrough in alpha devices''],
           challenges = [], future_outlook = [],
           sources = [''https://arxiv.org/abs/alpha'']\<rparr>)"
  by code_simp

section \<open>Two calls on one agent\<close>

text \<open>
  C10. An agent without a client is asked about "alpha" and then about "beta". The record
  returned by the second call has the key point, the challenge, the outlook and the source
  URL that the first call took from the page about alpha; a new agent asked about "beta"
  returns none of them.
\<close>

theorem calls_share_research_data:
  assumes "set_order_ok enum"
  shows "\<exists>r1 agent1 r2 agent2 r agent'.
     research_topic (two_topics_env enum) (init_agent False) ''alpha'' 3
       = Returned (Record r1, agent1) \<and>
     research_topic (two_topics_env enum) agent1 ''beta'' 3 = Returned (Record r2, agent2) \<and>
     research_topic (two_topics_env enum) (init_agent False) ''beta'' 3
       = Returned (Record r, agent') \<and>
     key_points r1 = [''Researchers achieved a breakthrough in alpha devices''] \<and>
     key_points r2 = key_points r1 \<and> challenges r2 = challenges r1 \<and>
     future_outlook r2 = future_outlook r1 \<and> challenges r1 \<noteq> [] \<and> future_outlook r1 \<noteq> [] \<and>
     sources r2 = [''https://arxiv.org/abs/alpha'', ''https://arxiv.org/abs/beta''] \<and>
     key_points r = [] \<and> challenges r = [] \<and> future_outlook r = [] \<and>
     sources r = [''https://arxiv.org/abs/beta'']"
  using run_alpha [OF assms] run_beta_after_alpha [OF assms] run_beta_fresh [OF assms]
  by (simp add: init_agent_def alpha_record_def beta_record_def)

theorem calls_share_research_data_witness:
  "set_order_ok remdups \<and>
   (\<exists>r1 agent1 r2 agent2.
     research_topic (two_topics_env remdups) (init_agent False) ''alpha'' 3
       = Returned (Record r1, agent1) \<and>
     research_topic (two_topics_env remdups) agent1 ''beta'' 3 = Returned (Record r2, agent2) \<and>
     key_points r2 = [''Researchers achieved a breakthrough in alpha devices''] \<and>
     sources r2 = [''https://arxiv.org/abs/alpha'', ''https://arxiv.org/abs/beta''])"
  using set_order_remdups calls_share_research_data [OF set_order_remdups] by auto

section \<open>A run through each tier\<close>









end
